theory Spec2Isabelle
  imports Main "HOL-Library.Sublist"
begin

section \<open>JavaScript values as the client reads them\<close>

text \<open>
  The client is untyped at run time: a parsed response body is \<^verbatim>\<open>any\<close>, and the fields
  it reads may hold any JSON value. A value is therefore one of the constructors below.
  Numbers are taken by their integer value (the program only tests them for zero and for
  being positive), strings are lists of code units below 256, and an object is the list
  of its own properties, each name once.
\<close>

datatype jsval =
    JUndefined
  | JNull
  | JBool bool
  | JNum int
  | JStr string
  | JArr "jsval list"
  | JObj "(string \<times> jsval) list"

text \<open>What a \<^verbatim>\<open>try\<close> block of the client can catch.\<close>

datatype js_error = TypeError | SyntaxError | NetworkFailure

text \<open>Truthiness, as used by \<^verbatim>\<open>!x\<close>, \<^verbatim>\<open>a || b\<close>, \<^verbatim>\<open>a && b\<close> and \<^verbatim>\<open>if (x)\<close>.\<close>

fun truthy :: "jsval \<Rightarrow> bool" where
  "truthy JUndefined = False"
| "truthy JNull = False"
| "truthy (JBool b) = b"
| "truthy (JNum n) = (n \<noteq> 0)"
| "truthy (JStr s) = (s \<noteq> [])"
| "truthy (JArr xs) = True"
| "truthy (JObj kvs) = True"

definition js_or :: "jsval \<Rightarrow> jsval \<Rightarrow> jsval" where
  "js_or a b = (if truthy a then a else b)"

fun nullish :: "jsval \<Rightarrow> bool" where
  "nullish JUndefined = True"
| "nullish JNull = True"
| "nullish v = False"

text \<open>
  \<open>read_prop v k\<close> is \<^verbatim>\<open>v.k\<close> on a value that is neither null nor undefined, for the
  property names this program reads (\<^verbatim>\<open>models\<close>, \<^verbatim>\<open>choices\<close>, \<^verbatim>\<open>messages\<close>, \<^verbatim>\<open>message\<close>,
  \<^verbatim>\<open>delta\<close>, \<^verbatim>\<open>content\<close>, \<^verbatim>\<open>text\<close>, \<^verbatim>\<open>role\<close>, \<^verbatim>\<open>id\<close>, \<^verbatim>\<open>name\<close>, \<^verbatim>\<open>token\<close>, \<^verbatim>\<open>length\<close> and the
  index \<^verbatim>\<open>0\<close>): arrays and strings own \<^verbatim>\<open>length\<close> and their elements, objects own what the
  document gave them, numbers and booleans own none of these names.
\<close>

fun read_prop :: "jsval \<Rightarrow> string \<Rightarrow> jsval" where
  "read_prop (JObj kvs) k = (case map_of kvs k of None \<Rightarrow> JUndefined | Some v \<Rightarrow> v)"
| "read_prop (JArr xs) k =
     (if k = ''length'' then JNum (int (length xs))
      else if k = ''0'' then (case xs of [] \<Rightarrow> JUndefined | x # _ \<Rightarrow> x)
      else JUndefined)"
| "read_prop (JStr s) k =
     (if k = ''length'' then JNum (int (length s))
      else if k = ''0'' then (case s of [] \<Rightarrow> JUndefined | c # _ \<Rightarrow> JStr [c])
      else JUndefined)"
| "read_prop v k = JUndefined"

text \<open>\<^verbatim>\<open>v.k\<close> throws a TypeError on null and undefined; \<^verbatim>\<open>v?.k\<close> gives undefined there.\<close>

definition js_get :: "jsval \<Rightarrow> string \<Rightarrow> js_error + jsval" where
  "js_get v k = (if nullish v then Inl TypeError else Inr (read_prop v k))"

definition js_opt_get :: "jsval \<Rightarrow> string \<Rightarrow> jsval" where
  "js_opt_get v k = (if nullish v then JUndefined else read_prop v k)"

text \<open>
  \<^verbatim>\<open>x > 0\<close>. On a number, a boolean, null and undefined it is decided here. A string, an
  array or an object is first converted by the run time's ToPrimitive and ToNumber, which
  parse floating-point literals; that conversion is the parameter \<open>coerced\<close>. It is
  consulted only when an object of the document carries an own \<^verbatim>\<open>length\<close> property that
  is a string, an array or an object.
\<close>

fun gt_zero :: "(jsval \<Rightarrow> bool) \<Rightarrow> jsval \<Rightarrow> bool" where
  "gt_zero coerced (JNum n) = (0 < n)"
| "gt_zero coerced (JBool b) = b"
| "gt_zero coerced JNull = False"
| "gt_zero coerced JUndefined = False"
| "gt_zero coerced v = coerced v"

text \<open>\<^verbatim>\<open>v && v.length > 0\<close>\<close>

definition nonempty :: "(jsval \<Rightarrow> bool) \<Rightarrow> jsval \<Rightarrow> bool" where
  "nonempty coerced v = (truthy v \<and> gt_zero coerced (read_prop v ''length''))"

section \<open>Strings\<close>

text \<open>The white space and line terminators that \<^verbatim>\<open>String.prototype.trim\<close> removes, below 256.\<close>

definition is_space :: "char \<Rightarrow> bool" where
  "is_space c = (c \<in> {CHR 0x09, CHR 0x0A, CHR 0x0B, CHR 0x0C, CHR 0x0D, CHR 0x20, CHR 0xA0})"

definition trim :: "string \<Rightarrow> string" where
  "trim s = rev (dropWhile is_space (rev (dropWhile is_space s)))"

definition endsWith :: "string \<Rightarrow> string \<Rightarrow> bool" where
  "endsWith s p = suffix p s"

text \<open>\<^verbatim>\<open>s.includes(p)\<close>: \<open>p\<close> occurs in \<open>s\<close> at some position.\<close>

fun str_includes :: "string \<Rightarrow> string \<Rightarrow> bool" where
  "str_includes [] p = (p = [])"
| "str_includes (c # cs) p = (prefix p (c # cs) \<or> str_includes cs p)"

text \<open>\<^verbatim>\<open>s.replace(/\/+$/, '')\<close>: the run of slashes at the end of \<open>s\<close> is removed.\<close>

definition strip_slashes :: "string \<Rightarrow> string" where
  "strip_slashes s = rev (dropWhile (\<lambda>c. c = CHR ''/'') (rev s))"

text \<open>\<^verbatim>\<open>n.toString()\<close> of a non-negative integer, as \<^verbatim>\<open>Date.now().toString()\<close> gives.\<close>

function decimal :: "nat \<Rightarrow> string" where
  "decimal n = (if n < 10 then [''0123456789'' ! n]
                else decimal (n div 10) @ [''0123456789'' ! (n mod 10)])"
  by pat_completeness auto
termination
  by (relation "measure (\<lambda>n. n)") auto

declare decimal.simps [simp del]

section \<open>Requests, responses and the component state\<close>

record request =
  verb :: string
  url :: string
  bearer :: "jsval option"
  payload :: "jsval option"

text \<open>
  A response as the client looks at it: \<open>content_type\<close> is what
  \<^verbatim>\<open>res.headers.get('content-type')\<close> returns (\<open>None\<close> for null), \<open>body_text\<close> what
  \<^verbatim>\<open>res.text()\<close> resolves to, \<open>body_json\<close> what \<^verbatim>\<open>res.json()\<close> resolves to (\<open>None\<close> when the
  body is not JSON and the promise rejects).
\<close>

record response =
  status :: nat
  content_type :: "string option"
  body_text :: string
  body_json :: "jsval option"

text \<open>The promise of \<^verbatim>\<open>fetch\<close> either rejects or resolves to a response.\<close>

datatype fetch_outcome = Rejected | Resolved response

datatype log_entry = Warn string | LogError js_error

definition ok :: "response \<Rightarrow> bool" where
  "ok res = (200 \<le> status res \<and> status res \<le> 299)"

text \<open>\<^verbatim>\<open>res.ok && contentType.includes('application/json')\<close>\<close>

definition accepted :: "response \<Rightarrow> bool" where
  "accepted res =
     (ok res \<and>
      str_includes (case content_type res of None \<Rightarrow> [] | Some c \<Rightarrow> c) ''application/json'')"

text \<open>
  The hooks of the component, the local storage and the console. The three variants of
  the component keep subsets of these fields; the conversation is an array of messages in
  the model-discovery variant and whatever the server sent in the history variants, hence
  the type parameter.
\<close>

record 'm app_state =
  serverUrl :: string
  apiKey :: string
  username :: string
  password :: string
  token :: jsval
  model :: jsval
  messages :: 'm
  currentMsg :: string
  error :: "string option"
  localStorage :: "string \<rightharpoonup> string"
  console :: "log_entry list"

text \<open>
  A \<^verbatim>\<open>ChatMessage\<close> object. The declared field types are erased at run time: a field
  filled from a response holds whatever value the server sent.
\<close>

record chat_message =
  m_id :: jsval
  m_text :: jsval
  m_role :: jsval

definition initial :: "'m \<Rightarrow> (string \<rightharpoonup> string) \<Rightarrow> 'm app_state" where
  "initial empty_conversation store =
     \<lparr>serverUrl = [], apiKey = [], username = [], password = [], token = JNull,
      model = JNull, messages = empty_conversation, currentMsg = [], error = None,
      localStorage = store, console = []\<rparr>"

text \<open>\<^verbatim>\<open>localStorage.getItem(k) || ''\<close>\<close>

definition getItem_or_empty :: "'m app_state \<Rightarrow> string \<Rightarrow> string" where
  "getItem_or_empty s k = (case localStorage s k of None \<Rightarrow> [] | Some v \<Rightarrow> v)"

section \<open>The model-discovery variant (renderer/App.tsx)\<close>

text \<open>The effect run on mount: credentials are read back from the local storage.\<close>

definition mount :: "'m app_state \<Rightarrow> 'm app_state" where
  "mount s =
     (let savedUrl = getItem_or_empty s ''serverUrl'';
          savedKey = getItem_or_empty s ''apiKey'';
          s1 = (if savedUrl \<noteq> [] then s\<lparr>serverUrl := savedUrl\<rparr> else s)
      in if savedKey \<noteq> [] then s1\<lparr>apiKey := savedKey, token := JStr savedKey\<rparr> else s1)"

definition getApiBase :: "'m app_state \<Rightarrow> string" where
  "getApiBase s =
     (let trimmed = strip_slashes (serverUrl s)
      in if endsWith trimmed ''/api'' then trimmed else trimmed @ ''/api'')"

subsection \<open>fetchFirstModel\<close>

text \<open>
  The body of the success branch: \<^verbatim>\<open>data.models\<close>, its first entry, and
  \<^verbatim>\<open>first.id || first.name || null\<close>. A read on null or undefined throws.
\<close>

definition first_model :: "(jsval \<Rightarrow> bool) \<Rightarrow> jsval \<Rightarrow> js_error + jsval" where
  "first_model coerced data =
     (case js_get data ''models'' of
        Inl e \<Rightarrow> Inl e
      | Inr models \<Rightarrow>
          if nonempty coerced models then
            (let first = read_prop models ''0''
             in case js_get first ''id'' of
                  Inl e \<Rightarrow> Inl e
                | Inr i \<Rightarrow> Inr (js_or i (js_or (read_prop first ''name'') JNull)))
          else Inr JNull)"

text \<open>The request that \<^verbatim>\<open>fetchFirstModel\<close> issues; none without a token.\<close>

definition fetchFirstModel_request :: "'m app_state \<Rightarrow> request option" where
  "fetchFirstModel_request s =
     (if \<not> truthy (token s) then None
      else Some \<lparr>verb = ''GET'', url = getApiBase s @ ''/models'',
                 bearer = Some (token s), payload = None\<rparr>)"

text \<open>
  What \<^verbatim>\<open>fetchFirstModel\<close> returns and what it writes to the console, given how the
  request settled. \<open>JNull\<close> is the \<^verbatim>\<open>null\<close> of the source.
\<close>

definition fetchFirstModel ::
  "(jsval \<Rightarrow> bool) \<Rightarrow> 'm app_state \<Rightarrow> fetch_outcome \<Rightarrow> jsval \<times> log_entry list" where
  "fetchFirstModel coerced s outcome =
     (if \<not> truthy (token s) then (JNull, [])
      else case outcome of
        Rejected \<Rightarrow> (JNull, [LogError NetworkFailure])
      | Resolved res \<Rightarrow>
          if accepted res then
            (case body_json res of
               None \<Rightarrow> (JNull, [LogError SyntaxError])
             | Some data \<Rightarrow>
                 (case first_model coerced data of
                    Inl e \<Rightarrow> (JNull, [LogError e])
                  | Inr v \<Rightarrow> (v, [])))
          else (JNull, [Warn (body_text res)]))"

subsection \<open>The effect on token and server URL\<close>

text \<open>
  \<open>setup_begin\<close> is the part of \<^verbatim>\<open>setup\<close> that runs before the request is awaited,
  \<open>setup_resolve\<close> the part after it: \<open>s0\<close> is the state the effect closed over, \<open>s\<close> the
  state when the request settles.
\<close>

definition setup_begin :: "chat_message list app_state \<Rightarrow> chat_message list app_state" where
  "setup_begin s =
     (if \<not> truthy (token s) then s else s\<lparr>error := None, messages := []\<rparr>)"

definition setup_resolve ::
  "(jsval \<Rightarrow> bool) \<Rightarrow> chat_message list app_state \<Rightarrow> fetch_outcome \<Rightarrow>
   chat_message list app_state \<Rightarrow> chat_message list app_state" where
  "setup_resolve coerced s0 outcome s =
     (if \<not> truthy (token s0) then s
      else case fetchFirstModel coerced s0 outcome of
        (mdl, logs) \<Rightarrow>
          (let s1 = s\<lparr>console := console s @ logs\<rparr>
           in if truthy mdl then s1\<lparr>model := mdl\<rparr>
              else s1\<lparr>model := JNull, error := Some ''Failed to retrieve models''\<rparr>))"

subsection \<open>connect\<close>

definition connect :: "'m app_state \<Rightarrow> 'm app_state" where
  "connect s =
     (let s1 = s\<lparr>error := None\<rparr>;
          url = trim (serverUrl s);
          key = trim (apiKey s)
      in if url = [] \<or> key = [] then s1\<lparr>error := Some ''Server URL and API key required''\<rparr>
         else s1\<lparr>localStorage := (localStorage s)(''serverUrl'' \<mapsto> url, ''apiKey'' \<mapsto> key),
                 token := JStr key\<rparr>)"

subsection \<open>sendMessage\<close>

definition userMessage :: "nat \<Rightarrow> string \<Rightarrow> chat_message" where
  "userMessage now trimmed =
     \<lparr>m_id = JStr (decimal now), m_text = JStr trimmed, m_role = JStr ''user''\<rparr>"

text \<open>
  The synchronous part of \<^verbatim>\<open>sendMessage\<close>, up to the call of \<^verbatim>\<open>fetch\<close>: the state it
  leaves and the request it issues, which is \<open>None\<close> when it returns early. \<open>now\<close> is the
  reading of \<^verbatim>\<open>Date.now()\<close>.
\<close>

definition sendMessage_begin ::
  "nat \<Rightarrow> chat_message list app_state \<Rightarrow> chat_message list app_state \<times> request option" where
  "sendMessage_begin now s =
     (if \<not> truthy (token s) \<or> \<not> truthy (model s) then (s, None)
      else let trimmed = trim (currentMsg s)
           in if trimmed = [] then (s, None)
              else let um = userMessage now trimmed
                   in (s\<lparr>messages := messages s @ [um], currentMsg := []\<rparr>,
                       Some \<lparr>verb = ''POST'', url = getApiBase s @ ''/chat/completions'',
                             bearer = Some (token s),
                             payload = Some (JObj
                               [(''model'', model s),
                                (''messages'', JArr (map
                                   (\<lambda>m. JObj [(''role'', m_role m), (''content'', m_text m)])
                                   (messages s @ [um])))])\<rparr>))"

text \<open>What the success branch does with the parsed body.\<close>

datatype reply = Append "chat_message list" | InvalidFormat

text \<open>
  \<^verbatim>\<open>data.choices[0].message?.content || data.choices[0].delta?.content || ''\<close>
\<close>

definition choice_reply :: "jsval \<Rightarrow> js_error + jsval" where
  "choice_reply c =
     (case js_get c ''message'' of
        Inl e \<Rightarrow> Inl e
      | Inr m \<Rightarrow>
          if truthy (js_opt_get m ''content'') then Inr (js_opt_get m ''content'')
          else (case js_get c ''delta'' of
                  Inl e \<Rightarrow> Inl e
                | Inr d \<Rightarrow> Inr (js_or (js_opt_get d ''content'') (JStr []))))"

text \<open>The callback of \<^verbatim>\<open>filter\<close>: \<^verbatim>\<open>msg.role && msg.role !== 'user'\<close>.\<close>

definition keep_message :: "jsval \<Rightarrow> js_error + bool" where
  "keep_message msg =
     (case js_get msg ''role'' of
        Inl e \<Rightarrow> Inl e
      | Inr r \<Rightarrow> Inr (truthy r \<and> r \<noteq> JStr ''user''))"

fun filter_messages :: "jsval list \<Rightarrow> js_error + jsval list" where
  "filter_messages [] = Inr []"
| "filter_messages (msg # rest) =
     (case keep_message msg of
        Inl e \<Rightarrow> Inl e
      | Inr keep \<Rightarrow>
          (case filter_messages rest of
             Inl e \<Rightarrow> Inl e
           | Inr kept \<Rightarrow> Inr (if keep then msg # kept else kept)))"

text \<open>
  The callback of \<^verbatim>\<open>map\<close>; \<open>now k\<close> is the reading of the clock while the \<open>k\<close>-th element
  is mapped.
\<close>

definition to_assistant :: "(nat \<Rightarrow> nat) \<Rightarrow> nat \<Rightarrow> jsval \<Rightarrow> js_error + chat_message" where
  "to_assistant now k msg =
     (case js_get msg ''id'' of
        Inl e \<Rightarrow> Inl e
      | Inr i \<Rightarrow>
          Inr \<lparr>m_id = js_or i (JStr (decimal (now k) @ ''-a'')),
               m_text = js_or (read_prop msg ''content'') (js_or (read_prop msg ''text'') (JStr [])),
               m_role = js_or (read_prop msg ''role'') (JStr ''assistant'')\<rparr>)"

fun map_messages ::
  "(nat \<Rightarrow> jsval \<Rightarrow> js_error + chat_message) \<Rightarrow> nat \<Rightarrow> jsval list \<Rightarrow>
   js_error + chat_message list" where
  "map_messages f k [] = Inr []"
| "map_messages f k (msg # rest) =
     (case f k msg of
        Inl e \<Rightarrow> Inl e
      | Inr m \<Rightarrow>
          (case map_messages f (Suc k) rest of
             Inl e \<Rightarrow> Inl e
           | Inr ms \<Rightarrow> Inr (m # ms)))"

definition normalize ::
  "(jsval \<Rightarrow> bool) \<Rightarrow> (nat \<Rightarrow> nat) \<Rightarrow> jsval \<Rightarrow> js_error + reply" where
  "normalize coerced now data =
     (case js_get data ''choices'' of
        Inl e \<Rightarrow> Inl e
      | Inr choices \<Rightarrow>
          if nonempty coerced choices then
            (case choice_reply (read_prop choices ''0'') of
               Inl e \<Rightarrow> Inl e
             | Inr reply \<Rightarrow>
                 if truthy reply then
                   Inr (Append [\<lparr>m_id = JStr (decimal (now 0) @ ''-a''), m_text = reply,
                                 m_role = JStr ''assistant''\<rparr>])
                 else Inr (Append []))
          else if truthy (read_prop data ''messages'') then
            (case read_prop data ''messages'' of
               JArr msgs \<Rightarrow>
                 (case filter_messages msgs of
                    Inl e \<Rightarrow> Inl e
                  | Inr kept \<Rightarrow>
                      (case map_messages (to_assistant now) 0 kept of
                         Inl e \<Rightarrow> Inl e
                       | Inr ms \<Rightarrow> Inr (Append ms)))
             | _ \<Rightarrow> Inl TypeError)
          else Inr InvalidFormat)"

text \<open>
  The part of \<^verbatim>\<open>sendMessage\<close> after \<^verbatim>\<open>fetch\<close> has settled, applied to the state of that
  moment: the updates are functional (\<^verbatim>\<open>prev => [...prev, m]\<close>), so they act on the
  conversation as it is then.
\<close>

definition sendMessage_resolve ::
  "(jsval \<Rightarrow> bool) \<Rightarrow> (nat \<Rightarrow> nat) \<Rightarrow> fetch_outcome \<Rightarrow>
   chat_message list app_state \<Rightarrow> chat_message list app_state" where
  "sendMessage_resolve coerced now outcome s =
     (case outcome of
        Rejected \<Rightarrow>
          s\<lparr>console := console s @ [LogError NetworkFailure], error := Some ''Network error''\<rparr>
      | Resolved res \<Rightarrow>
          if accepted res then
            (case body_json res of
               None \<Rightarrow>
                 s\<lparr>console := console s @ [LogError SyntaxError], error := Some ''Network error''\<rparr>
             | Some data \<Rightarrow>
                 (case normalize coerced now data of
                    Inl e \<Rightarrow> s\<lparr>console := console s @ [LogError e], error := Some ''Network error''\<rparr>
                  | Inr (Append ms) \<Rightarrow> s\<lparr>messages := messages s @ ms\<rparr>
                  | Inr InvalidFormat \<Rightarrow> s\<lparr>error := Some ''Invalid response format''\<rparr>))
          else
            s\<lparr>console := console s @ [Warn (body_text res)],
              error := Some (''Unexpected response: '' @ body_text res)\<rparr>)"

section \<open>The history variant with an API key (renderer/App.tsx, second document)\<close>

text \<open>
  This variant has the same mount effect, \<^verbatim>\<open>getApiBase\<close> and \<^verbatim>\<open>connect\<close> as the
  model-discovery variant (\<open>mount\<close>, \<open>getApiBase\<close> and \<open>connect\<close> above), no model, and
  a conversation that is set to what the history endpoint returned.
\<close>

definition msg_obj :: "chat_message \<Rightarrow> jsval" where
  "msg_obj m = JObj [(''id'', m_id m), (''text'', m_text m), (''role'', m_role m)]"

text \<open>
  \<^verbatim>\<open>[...prev]\<close>: an array spreads to its elements, a string to its characters, anything
  else is not iterable.
\<close>

fun spread :: "jsval \<Rightarrow> js_error + jsval list" where
  "spread (JArr xs) = Inr xs"
| "spread (JStr cs) = Inr (map (\<lambda>c. JStr [c]) cs)"
| "spread v = Inl TypeError"

text \<open>
  The functional update \<^verbatim>\<open>setMessages((prev) => [...prev, ...new])\<close>. An updater that
  throws commits no state.
\<close>

definition push :: "jsval \<Rightarrow> jsval list \<Rightarrow> jsval" where
  "push prev new = (case spread prev of Inl e \<Rightarrow> prev | Inr xs \<Rightarrow> JArr (xs @ new))"

subsection \<open>The history effect\<close>

definition fetchHistory2_request :: "jsval app_state \<Rightarrow> request option" where
  "fetchHistory2_request s =
     (if \<not> truthy (token s) then None
      else Some \<lparr>verb = ''GET'', url = getApiBase s @ ''/chats'',
                 bearer = Some (token s), payload = None\<rparr>)"

text \<open>
  The effect after its request has settled: \<open>s0\<close> is the state the effect closed over,
  \<open>s\<close> the state at that moment.
\<close>

definition fetchHistory2_resolve ::
  "jsval app_state \<Rightarrow> fetch_outcome \<Rightarrow> jsval app_state \<Rightarrow> jsval app_state" where
  "fetchHistory2_resolve s0 outcome s =
     (if \<not> truthy (token s0) then s
      else case outcome of
        Rejected \<Rightarrow>
          s\<lparr>console := console s @ [LogError NetworkFailure], error := Some ''Network error''\<rparr>
      | Resolved res \<Rightarrow>
          if accepted res then
            (case body_json res of
               None \<Rightarrow>
                 s\<lparr>console := console s @ [LogError SyntaxError], error := Some ''Network error''\<rparr>
             | Some data \<Rightarrow>
                 (case js_get data ''messages'' of
                    Inl e \<Rightarrow>
                      s\<lparr>console := console s @ [LogError e], error := Some ''Network error''\<rparr>
                  | Inr msgs \<Rightarrow> s\<lparr>messages := js_or msgs (JArr [])\<rparr>))
          else
            s\<lparr>console := console s @ [Warn (body_text res)],
              error := Some ''Failed to fetch chat history''\<rparr>)"

subsection \<open>sendMessage\<close>

text \<open>The callback of \<^verbatim>\<open>map\<close> in the history variants.\<close>

definition to_assistant2 :: "(nat \<Rightarrow> nat) \<Rightarrow> nat \<Rightarrow> jsval \<Rightarrow> js_error + chat_message" where
  "to_assistant2 now k msg =
     (case js_get msg ''id'' of
        Inl e \<Rightarrow> Inl e
      | Inr i \<Rightarrow>
          Inr \<lparr>m_id = js_or i (JStr (decimal (now k))),
               m_text = js_or (read_prop msg ''text'') (js_or (read_prop msg ''content'') (JStr [])),
               m_role = js_or (read_prop msg ''role'') (JStr ''assistant'')\<rparr>)"

text \<open>\<^verbatim>\<open>(data.messages || []).map(...)\<close>: only an array has \<^verbatim>\<open>map\<close>.\<close>

definition assistant_messages2 :: "(nat \<Rightarrow> nat) \<Rightarrow> jsval \<Rightarrow> js_error + chat_message list" where
  "assistant_messages2 now data =
     (case js_get data ''messages'' of
        Inl e \<Rightarrow> Inl e
      | Inr msgs \<Rightarrow>
          (case js_or msgs (JArr []) of
             JArr xs \<Rightarrow> map_messages (to_assistant2 now) 0 xs
           | _ \<Rightarrow> Inl TypeError))"

definition sendMessage2_begin ::
  "nat \<Rightarrow> jsval app_state \<Rightarrow> jsval app_state \<times> request option" where
  "sendMessage2_begin now s =
     (if \<not> truthy (token s) then (s, None)
      else let trimmed = trim (currentMsg s)
           in if trimmed = [] then (s, None)
              else let newMsg = userMessage now trimmed
                   in (s\<lparr>messages := push (messages s) [msg_obj newMsg], currentMsg := []\<rparr>,
                       Some \<lparr>verb = ''POST'', url = getApiBase s @ ''/message'',
                             bearer = Some (token s),
                             payload = Some (JObj [(''content'', m_text newMsg)])\<rparr>))"

definition sendMessage2_resolve ::
  "(nat \<Rightarrow> nat) \<Rightarrow> fetch_outcome \<Rightarrow> jsval app_state \<Rightarrow> jsval app_state" where
  "sendMessage2_resolve now outcome s =
     (case outcome of
        Rejected \<Rightarrow>
          s\<lparr>console := console s @ [LogError NetworkFailure], error := Some ''Network error''\<rparr>
      | Resolved res \<Rightarrow>
          if accepted res then
            (case body_json res of
               None \<Rightarrow>
                 s\<lparr>console := console s @ [LogError SyntaxError], error := Some ''Network error''\<rparr>
             | Some data \<Rightarrow>
                 (case assistant_messages2 now data of
                    Inl e \<Rightarrow> s\<lparr>console := console s @ [LogError e], error := Some ''Network error''\<rparr>
                  | Inr ms \<Rightarrow> s\<lparr>messages := push (messages s) (map msg_obj ms)\<rparr>))
          else
            s\<lparr>console := console s @ [Warn (body_text res)],
              error := Some ''Failed to send message''\<rparr>)"

section \<open>The login variant (the unnamed source file)\<close>

text \<open>
  This variant gets its token from a login exchange, builds its URLs as
  \<^verbatim>\<open>${serverUrl}/api/...\<close> and looks only at \<^verbatim>\<open>res.ok\<close>.
\<close>

definition fetchHistory3_request :: "jsval app_state \<Rightarrow> request option" where
  "fetchHistory3_request s =
     (if \<not> truthy (token s) then None
      else Some \<lparr>verb = ''GET'', url = serverUrl s @ ''/api/chats'',
                 bearer = Some (token s), payload = None\<rparr>)"

definition fetchHistory3_resolve ::
  "jsval app_state \<Rightarrow> fetch_outcome \<Rightarrow> jsval app_state \<Rightarrow> jsval app_state" where
  "fetchHistory3_resolve s0 outcome s =
     (if \<not> truthy (token s0) then s
      else case outcome of
        Rejected \<Rightarrow>
          s\<lparr>console := console s @ [LogError NetworkFailure], error := Some ''Network error''\<rparr>
      | Resolved res \<Rightarrow>
          if ok res then
            (case body_json res of
               None \<Rightarrow>
                 s\<lparr>console := console s @ [LogError SyntaxError], error := Some ''Network error''\<rparr>
             | Some data \<Rightarrow>
                 (case js_get data ''messages'' of
                    Inl e \<Rightarrow>
                      s\<lparr>console := console s @ [LogError e], error := Some ''Network error''\<rparr>
                  | Inr msgs \<Rightarrow> s\<lparr>messages := js_or msgs (JArr [])\<rparr>))
          else s\<lparr>error := Some ''Failed to fetch chat history''\<rparr>)"

definition login3_begin :: "jsval app_state \<Rightarrow> jsval app_state \<times> request" where
  "login3_begin s =
     (s\<lparr>error := None\<rparr>,
      \<lparr>verb = ''POST'', url = serverUrl s @ ''/api/login'', bearer = None,
       payload = Some (JObj [(''username'', JStr (username s)),
                             (''password'', JStr (password s))])\<rparr>)"

definition login3_resolve :: "fetch_outcome \<Rightarrow> jsval app_state \<Rightarrow> jsval app_state" where
  "login3_resolve outcome s =
     (case outcome of
        Rejected \<Rightarrow>
          s\<lparr>console := console s @ [LogError NetworkFailure], error := Some ''Network error''\<rparr>
      | Resolved res \<Rightarrow>
          if ok res then
            (case body_json res of
               None \<Rightarrow>
                 s\<lparr>console := console s @ [LogError SyntaxError], error := Some ''Network error''\<rparr>
             | Some data \<Rightarrow>
                 (case js_get data ''token'' of
                    Inl e \<Rightarrow>
                      s\<lparr>console := console s @ [LogError e], error := Some ''Network error''\<rparr>
                  | Inr t \<Rightarrow> s\<lparr>token := t\<rparr>))
          else s\<lparr>error := Some ''Login failed''\<rparr>)"

definition sendMessage3_begin ::
  "nat \<Rightarrow> jsval app_state \<Rightarrow> jsval app_state \<times> request option" where
  "sendMessage3_begin now s =
     (if \<not> truthy (token s) then (s, None)
      else let trimmed = trim (currentMsg s)
           in if trimmed = [] then (s, None)
              else let newMsg = userMessage now trimmed
                   in (s\<lparr>messages := push (messages s) [msg_obj newMsg], currentMsg := []\<rparr>,
                       Some \<lparr>verb = ''POST'', url = serverUrl s @ ''/api/message'',
                             bearer = Some (token s),
                             payload = Some (JObj [(''content'', m_text newMsg)])\<rparr>))"

definition sendMessage3_resolve ::
  "(nat \<Rightarrow> nat) \<Rightarrow> fetch_outcome \<Rightarrow> jsval app_state \<Rightarrow> jsval app_state" where
  "sendMessage3_resolve now outcome s =
     (case outcome of
        Rejected \<Rightarrow>
          s\<lparr>console := console s @ [LogError NetworkFailure], error := Some ''Network error''\<rparr>
      | Resolved res \<Rightarrow>
          if ok res then
            (case body_json res of
               None \<Rightarrow>
                 s\<lparr>console := console s @ [LogError SyntaxError], error := Some ''Network error''\<rparr>
             | Some data \<Rightarrow>
                 (case assistant_messages2 now data of
                    Inl e \<Rightarrow> s\<lparr>console := console s @ [LogError e], error := Some ''Network error''\<rparr>
                  | Inr ms \<Rightarrow> s\<lparr>messages := push (messages s) (map msg_obj ms)\<rparr>))
          else s\<lparr>error := Some ''Failed to send message''\<rparr>)"

section \<open>Example inputs\<close>

text \<open>
  Inputs on which the properties below are evaluated: a response with status 200 and
  content type \<^verbatim>\<open>application/json\<close> whose body is the text \<open>txt\<close> and parses to \<open>v\<close>; the
  model-discovery variant connected, with a model, after the user sent \<^verbatim>\<open>hi\<close>; a history
  variant with a token and an empty conversation.
\<close>

definition json_response :: "string \<Rightarrow> jsval \<Rightarrow> response" where
  "json_response txt v =
     \<lparr>status = 200, content_type = Some ''application/json'', body_text = txt,
      body_json = Some v\<rparr>"

definition chat_state :: "chat_message list app_state" where
  "chat_state =
     (initial [userMessage 3 ''hi''] Map.empty)\<lparr>token := JStr ''k'', model := JStr ''m''\<rparr>"

definition history_state :: "jsval app_state" where
  "history_state = (initial (JArr []) Map.empty)\<lparr>token := JStr ''k''\<rparr>"

section \<open>Properties\<close>

subsection \<open>The API base path\<close>

lemma strip_slashes_decomp:
  "\<exists>n. u = strip_slashes u @ replicate n (CHR ''/'')"
proof -
  let ?P = "\<lambda>c. c = CHR ''/''"
  have "rev u = takeWhile ?P (rev u) @ dropWhile ?P (rev u)" by simp
  then have "rev (rev u) = rev (takeWhile ?P (rev u) @ dropWhile ?P (rev u))" by simp
  then have a: "u = rev (dropWhile ?P (rev u)) @ rev (takeWhile ?P (rev u))"
    by (simp only: rev_append rev_rev_ident)
  have "\<forall>x\<in>set (takeWhile ?P (rev u)). x = CHR ''/''"
    by (auto dest: set_takeWhileD)
  then have "takeWhile ?P (rev u) = replicate (length (takeWhile ?P (rev u))) (CHR ''/'')"
    by (simp add: replicate_length_same)
  then have "rev (takeWhile ?P (rev u)) = replicate (length (takeWhile ?P (rev u))) (CHR ''/'')"
    by (metis rev_replicate)
  with a show ?thesis
    unfolding strip_slashes_def by metis
qed

lemma strip_slashes_no_slash: "\<not> endsWith (strip_slashes u) ''/''"
proof
  let ?d = "dropWhile (\<lambda>c. c = CHR ''/'') (rev u)"
  assume "endsWith (strip_slashes u) ''/''"
  then obtain zs where z: "rev ?d = zs @ ''/''"
    by (auto simp: endsWith_def suffix_def strip_slashes_def)
  then have "rev (rev ?d) = rev (zs @ ''/'')" by simp
  then have d: "?d = CHR ''/'' # rev zs" by simp
  then have "?d \<noteq> []" by simp
  then have "hd ?d \<noteq> CHR ''/''" by (rule hd_dropWhile)
  with d show False by simp
qed

lemma getApiBase_ends: "endsWith (getApiBase s) ''/api''"
  by (auto simp: getApiBase_def Let_def endsWith_def suffix_def)

lemma sendMessage_begin_url:
  "sendMessage_begin now s = (s', Some r) \<Longrightarrow> url r = getApiBase s @ ''/chat/completions''"
  by (auto simp: sendMessage_begin_def Let_def split: if_splits)

lemma sendMessage2_begin_url:
  "sendMessage2_begin now s = (s', Some r) \<Longrightarrow> url r = getApiBase s @ ''/message''"
  by (auto simp: sendMessage2_begin_def Let_def split: if_splits)

lemma sendMessage3_begin_url:
  "sendMessage3_begin now s = (s', Some r) \<Longrightarrow> url r = serverUrl s @ ''/api/message''"
  by (auto simp: sendMessage3_begin_def Let_def split: if_splits)

text \<open>
  C8, as amended. In the two API-key variants every authenticated request goes to
  \<open>getApiBase\<close> followed by the endpoint path; \<open>getApiBase\<close> is the server URL with the
  slashes at its end removed, and with \<^verbatim>\<open>/api\<close> appended unless what is left already ends
  in \<^verbatim>\<open>/api\<close>, so it always ends in \<^verbatim>\<open>/api\<close>. The login variant does not normalize:
  it appends \<^verbatim>\<open>/api\<close> and the path to the server URL as it was typed.
\<close>

theorem api_base_normalized:
  "endsWith (getApiBase s) ''/api''
   \<and> getApiBase s =
       (if endsWith (strip_slashes (serverUrl s)) ''/api'' then strip_slashes (serverUrl s)
        else strip_slashes (serverUrl s) @ ''/api'')
   \<and> (\<exists>n. serverUrl s = strip_slashes (serverUrl s) @ replicate n (CHR ''/''))
   \<and> \<not> endsWith (strip_slashes (serverUrl s)) ''/''
   \<and> (\<forall>r. fetchFirstModel_request s = Some r \<longrightarrow> url r = getApiBase s @ ''/models'')
   \<and> (\<forall>now s' r. sendMessage_begin now s1 = (s', Some r) \<longrightarrow>
          url r = getApiBase s1 @ ''/chat/completions'')
   \<and> (\<forall>r. fetchHistory2_request s2 = Some r \<longrightarrow> url r = getApiBase s2 @ ''/chats'')
   \<and> (\<forall>now s' r. sendMessage2_begin now s2 = (s', Some r) \<longrightarrow>
          url r = getApiBase s2 @ ''/message'')
   \<and> (\<forall>r. fetchHistory3_request s3 = Some r \<longrightarrow> url r = serverUrl s3 @ ''/api/chats'')
   \<and> (\<forall>now s' r. sendMessage3_begin now s3 = (s', Some r) \<longrightarrow>
          url r = serverUrl s3 @ ''/api/message'')"
proof -
  have a: "getApiBase s =
       (if endsWith (strip_slashes (serverUrl s)) ''/api'' then strip_slashes (serverUrl s)
        else strip_slashes (serverUrl s) @ ''/api'')"
    by (simp add: getApiBase_def Let_def)
  have b: "\<forall>r. fetchFirstModel_request s = Some r \<longrightarrow> url r = getApiBase s @ ''/models''"
    by (auto simp: fetchFirstModel_request_def split: if_splits)
  have c: "\<forall>r. fetchHistory2_request s2 = Some r \<longrightarrow> url r = getApiBase s2 @ ''/chats''"
    by (auto simp: fetchHistory2_request_def split: if_splits)
  have d: "\<forall>r. fetchHistory3_request s3 = Some r \<longrightarrow> url r = serverUrl s3 @ ''/api/chats''"
    by (auto simp: fetchHistory3_request_def split: if_splits)
  from a b c d getApiBase_ends [of s] strip_slashes_decomp [of "serverUrl s"]
    strip_slashes_no_slash [of "serverUrl s"]
    sendMessage_begin_url [of _ s1] sendMessage2_begin_url [of _ s2]
    sendMessage3_begin_url [of _ s3]
  show ?thesis by blast
qed

theorem api_base_normalized_witness:
  "getApiBase ((initial [] Map.empty)\<lparr>serverUrl := ''http://h/api//'', token := JStr ''k''\<rparr>)
     = ''http://h/api''
   \<and> map_option url (fetchFirstModel_request
        ((initial [] Map.empty)\<lparr>serverUrl := ''http://h/api//'', token := JStr ''k''\<rparr>))
     = Some ''http://h/api/models''
   \<and> map_option url (snd (sendMessage_begin 5
        ((initial [] Map.empty)\<lparr>serverUrl := ''http://h/'', token := JStr ''k'',
           model := JStr ''m'', currentMsg := ''hi''\<rparr>)))
     = Some ''http://h/api/chat/completions''
   \<and> map_option url (fetchHistory2_request
        ((initial (JArr []) Map.empty)\<lparr>serverUrl := ''http://h'', token := JStr ''k''\<rparr>))
     = Some ''http://h/api/chats''
   \<and> map_option url (fetchHistory3_request
        ((initial (JArr []) Map.empty)\<lparr>serverUrl := ''http://h'', token := JStr ''k''\<rparr>))
     = Some ''http://h/api/chats''"
  using api_base_normalized
    [of "(initial [] Map.empty)\<lparr>serverUrl := ''http://h/api//'', token := JStr ''k''\<rparr>"
        "(initial [] Map.empty)\<lparr>serverUrl := ''http://h/'', token := JStr ''k'',
           model := JStr ''m'', currentMsg := ''hi''\<rparr>"
        "(initial (JArr []) Map.empty)\<lparr>serverUrl := ''http://h'', token := JStr ''k''\<rparr>"
        "(initial (JArr []) Map.empty)\<lparr>serverUrl := ''http://h'', token := JStr ''k''\<rparr>"]
  by (simp add: initial_def getApiBase_def strip_slashes_def endsWith_def suffix_to_prefix
      fetchFirstModel_request_def sendMessage_begin_def fetchHistory2_request_def
      fetchHistory3_request_def trim_def is_space_def Let_def)

text \<open>
  C8, as stated, fails in the login variant: a server URL that already ends in \<^verbatim>\<open>/api\<close>
  gets a second \<^verbatim>\<open>/api\<close>, and a slash at the end of the URL is kept.
\<close>

theorem login_variant_url_counterexample:
  "map_option url (fetchHistory3_request
      ((initial (JArr []) Map.empty)\<lparr>serverUrl := ''http://h/api'', token := JStr ''k''\<rparr>))
     = Some ''http://h/api/api/chats''
   \<and> getApiBase ((initial (JArr []) Map.empty)\<lparr>serverUrl := ''http://h/api'', token := JStr ''k''\<rparr>)
       @ ''/chats'' = ''http://h/api/chats''
   \<and> map_option url (fetchHistory3_request
      ((initial (JArr []) Map.empty)\<lparr>serverUrl := ''http://h/'', token := JStr ''k''\<rparr>))
     = Some ''http://h//api/chats''"
  by (simp add: initial_def fetchHistory3_request_def getApiBase_def strip_slashes_def
      endsWith_def suffix_to_prefix)

subsection \<open>Which responses are taken as successful\<close>

lemma str_includes_iff: "str_includes s p \<longleftrightarrow> (\<exists>a b. s = a @ p @ b)"
proof (induction s)
  case Nil
  then show ?case by auto
next
  case (Cons c cs)
  show ?case
  proof
    assume "str_includes (c # cs) p"
    then consider "prefix p (c # cs)" | "str_includes cs p" by auto
    then show "\<exists>a b. c # cs = a @ p @ b"
    proof cases
      case 1
      then obtain b where "c # cs = p @ b" by (auto simp: prefix_def)
      then have "c # cs = [] @ p @ b" by simp
      then show ?thesis by blast
    next
      case 2
      with Cons.IH obtain a b where "cs = a @ p @ b" by blast
      then have "c # cs = (c # a) @ p @ b" by simp
      then show ?thesis by blast
    qed
  next
    assume "\<exists>a b. c # cs = a @ p @ b"
    then obtain a b where ab: "c # cs = a @ p @ b" by blast
    show "str_includes (c # cs) p"
    proof (cases a)
      case Nil
      with ab have "prefix p (c # cs)" by (simp add: prefix_def)
      then show ?thesis by simp
    next
      case (Cons x a')
      with ab have "cs = a' @ p @ b" by simp
      with Cons.IH have "str_includes cs p" by blast
      then show ?thesis by simp
    qed
  qed
qed

lemma accepted_iff:
  "accepted r \<longleftrightarrow>
     (200 \<le> status r \<and> status r \<le> 299 \<and>
      (\<exists>a b. content_type r = Some (a @ ''application/json'' @ b)))"
  by (cases "content_type r") (auto simp: accepted_def ok_def str_includes_iff)

lemma text_plain_not_accepted: "content_type r = Some ''text/plain'' \<Longrightarrow> \<not> accepted r"
  by (simp add: accepted_def prefix_def)

text \<open>
  C1, as amended. In the two API-key variants a response is taken as successful only if
  its status is in 200..299 and its content-type header contains \<^verbatim>\<open>application/json\<close>;
  a 200 with \<^verbatim>\<open>text/plain\<close> is not. Every other response is a failure whatever its body
  holds: model discovery returns null, the send and history operations set the error, and
  each writes the raw text of the body to the console (the send of the model-discovery
  variant also puts it into the error). The login variant looks only at the status and
  reads no text.
\<close>

theorem response_rejected_unless_json:
  "(accepted r \<longleftrightarrow>
      (200 \<le> status r \<and> status r \<le> 299 \<and>
       (\<exists>a b. content_type r = Some (a @ ''application/json'' @ b))))
   \<and> (status r = 200 \<and> content_type r = Some ''text/plain'' \<longrightarrow> \<not> accepted r)
   \<and> (\<not> accepted r \<longrightarrow>
        (truthy (token s0) \<longrightarrow>
           fetchFirstModel coerced s0 (Resolved r) = (JNull, [Warn (body_text r)])
           \<and> setup_resolve coerced s0 (Resolved r) s =
               s\<lparr>console := console s @ [Warn (body_text r)], model := JNull,
                 error := Some ''Failed to retrieve models''\<rparr>)
        \<and> sendMessage_resolve coerced now (Resolved r) s =
            s\<lparr>console := console s @ [Warn (body_text r)],
              error := Some (''Unexpected response: '' @ body_text r)\<rparr>
        \<and> (truthy (token h0) \<longrightarrow>
             fetchHistory2_resolve h0 (Resolved r) h =
               h\<lparr>console := console h @ [Warn (body_text r)],
                 error := Some ''Failed to fetch chat history''\<rparr>)
        \<and> sendMessage2_resolve now (Resolved r) h =
            h\<lparr>console := console h @ [Warn (body_text r)],
              error := Some ''Failed to send message''\<rparr>)
   \<and> (\<not> ok r3 \<longrightarrow>
        (truthy (token h0) \<longrightarrow>
           fetchHistory3_resolve h0 (Resolved r3) h =
             h\<lparr>error := Some ''Failed to fetch chat history''\<rparr>)
        \<and> sendMessage3_resolve now (Resolved r3) h =
            h\<lparr>error := Some ''Failed to send message''\<rparr>)"
proof -
  have v1: "\<not> accepted r \<Longrightarrow> truthy (token s0) \<Longrightarrow>
      fetchFirstModel coerced s0 (Resolved r) = (JNull, [Warn (body_text r)])"
    by (simp add: fetchFirstModel_def)
  have v1': "\<not> accepted r \<Longrightarrow> truthy (token s0) \<Longrightarrow>
      setup_resolve coerced s0 (Resolved r) s =
               s\<lparr>console := console s @ [Warn (body_text r)], model := JNull,
                 error := Some ''Failed to retrieve models''\<rparr>"
    by (simp add: setup_resolve_def fetchFirstModel_def)
  have v1s: "\<not> accepted r \<Longrightarrow> sendMessage_resolve coerced now (Resolved r) s =
            s\<lparr>console := console s @ [Warn (body_text r)],
              error := Some (''Unexpected response: '' @ body_text r)\<rparr>"
    by (simp add: sendMessage_resolve_def)
  have v2: "\<not> accepted r \<Longrightarrow> truthy (token h0) \<Longrightarrow>
             fetchHistory2_resolve h0 (Resolved r) h =
               h\<lparr>console := console h @ [Warn (body_text r)],
                 error := Some ''Failed to fetch chat history''\<rparr>"
    by (simp add: fetchHistory2_resolve_def)
  have v2s: "\<not> accepted r \<Longrightarrow> sendMessage2_resolve now (Resolved r) h =
            h\<lparr>console := console h @ [Warn (body_text r)],
              error := Some ''Failed to send message''\<rparr>"
    by (simp add: sendMessage2_resolve_def)
  have v3: "\<not> ok r3 \<Longrightarrow> truthy (token h0) \<Longrightarrow>
           fetchHistory3_resolve h0 (Resolved r3) h =
             h\<lparr>error := Some ''Failed to fetch chat history''\<rparr>"
    by (simp add: fetchHistory3_resolve_def)
  have v3s: "\<not> ok r3 \<Longrightarrow>
      sendMessage3_resolve now (Resolved r3) h = h\<lparr>error := Some ''Failed to send message''\<rparr>"
    by (simp add: sendMessage3_resolve_def)
  from accepted_iff [of r] text_plain_not_accepted [of r] v1 v1' v1s v2 v2s v3 v3s
  show ?thesis by blast
qed

theorem response_rejected_unless_json_witness:
  "\<not> accepted \<lparr>status = 200, content_type = Some ''text/plain'', body_text = ''{}'',
        body_json = Some (JObj [])\<rparr>
   \<and> \<not> ok \<lparr>status = 500, content_type = Some ''application/json'', body_text = ''{}'',
        body_json = Some (JObj [])\<rparr>
   \<and> fetchFirstModel (\<lambda>v. False) ((initial ([] :: chat_message list) Map.empty)\<lparr>token := JStr ''k''\<rparr>)
        (Resolved \<lparr>status = 200, content_type = Some ''text/plain'', body_text = ''{}'',
           body_json = Some (JObj [])\<rparr>)
      = (JNull, [Warn ''{}''])
   \<and> error (sendMessage_resolve (\<lambda>v. False) (\<lambda>k. 5)
        (Resolved \<lparr>status = 200, content_type = Some ''text/plain'', body_text = ''{}'',
           body_json = Some (JObj [])\<rparr>)
        ((initial ([] :: chat_message list) Map.empty)\<lparr>token := JStr ''k''\<rparr>))
      = Some ''Unexpected response: {}''
   \<and> error (fetchHistory2_resolve ((initial (JArr []) Map.empty)\<lparr>token := JStr ''k''\<rparr>)
        (Resolved \<lparr>status = 200, content_type = Some ''text/plain'', body_text = ''{}'',
           body_json = Some (JObj [])\<rparr>)
        ((initial (JArr []) Map.empty)\<lparr>token := JStr ''k''\<rparr>))
      = Some ''Failed to fetch chat history''
   \<and> error (fetchHistory3_resolve ((initial (JArr []) Map.empty)\<lparr>token := JStr ''k''\<rparr>)
        (Resolved \<lparr>status = 500, content_type = Some ''application/json'', body_text = ''{}'',
           body_json = Some (JObj [])\<rparr>)
        ((initial (JArr []) Map.empty)\<lparr>token := JStr ''k''\<rparr>))
      = Some ''Failed to fetch chat history''"
  using response_rejected_unless_json
    [of "\<lparr>status = 200, content_type = Some ''text/plain'', body_text = ''{}'',
           body_json = Some (JObj [])\<rparr>"
        "(initial ([] :: chat_message list) Map.empty)\<lparr>token := JStr ''k''\<rparr>"
        "\<lambda>v. False"
        "(initial ([] :: chat_message list) Map.empty)\<lparr>token := JStr ''k''\<rparr>"
        "\<lambda>k. 5"
        "(initial (JArr []) Map.empty)\<lparr>token := JStr ''k''\<rparr>"
        "(initial (JArr []) Map.empty)\<lparr>token := JStr ''k''\<rparr>"
        "\<lparr>status = 500, content_type = Some ''application/json'', body_text = ''{}'',
           body_json = Some (JObj [])\<rparr>"]
  by (simp add: ok_def initial_def accepted_def prefix_def)

text \<open>
  C1, as stated, fails in the login variant: its history fetch takes a 200 response of
  content type \<^verbatim>\<open>text/plain\<close> as successful and stores the messages of its body.
\<close>

theorem login_variant_text_plain_counterexample:
  "\<not> accepted \<lparr>status = 200, content_type = Some ''text/plain'',
        body_text = ''{\"messages\":[{\"id\":\"1\",\"role\":\"user\",\"text\":\"hi\"}]}'',
        body_json = Some (JObj [(''messages'',
          JArr [JObj [(''id'', JStr ''1''), (''role'', JStr ''user''), (''text'', JStr ''hi'')]])])\<rparr>
   \<and> fetchHistory3_resolve ((initial (JArr []) Map.empty)\<lparr>token := JStr ''t''\<rparr>)
        (Resolved \<lparr>status = 200, content_type = Some ''text/plain'',
           body_text = ''{\"messages\":[{\"id\":\"1\",\"role\":\"user\",\"text\":\"hi\"}]}'',
           body_json = Some (JObj [(''messages'',
             JArr [JObj [(''id'', JStr ''1''), (''role'', JStr ''user''), (''text'', JStr ''hi'')]])])\<rparr>)
        ((initial (JArr []) Map.empty)\<lparr>token := JStr ''t''\<rparr>)
      = (initial (JArr []) Map.empty)
          \<lparr>token := JStr ''t'',
           messages := JArr [JObj [(''id'', JStr ''1''), (''role'', JStr ''user''),
                                 (''text'', JStr ''hi'')]]\<rparr>"
  by (simp add: accepted_def prefix_def fetchHistory3_resolve_def ok_def initial_def
      js_get_def js_or_def)

subsection \<open>Model discovery\<close>

lemma first_model_entry:
  "read_prop data ''models'' = JArr (first # rest) \<Longrightarrow> \<not> nullish first \<Longrightarrow>
   first_model coerced data =
     Inr (if truthy (read_prop first ''id'') then read_prop first ''id''
          else if truthy (read_prop first ''name'') then read_prop first ''name'' else JNull)"
  by (cases data) (auto simp: first_model_def js_get_def nonempty_def js_or_def)

lemma first_model_empty:
  "read_prop data ''models'' = JArr [] \<Longrightarrow> first_model coerced data = Inr JNull"
  by (cases data) (auto simp: first_model_def js_get_def nonempty_def)

text \<open>
  C3, as amended. For a models-listing response that is taken as successful and whose
  list starts with an entry that is not null, \<^verbatim>\<open>fetchFirstModel\<close> returns the entry's
  \<^verbatim>\<open>id\<close> when that is truthy (for a string: not empty), otherwise its \<^verbatim>\<open>name\<close> when that
  is truthy, otherwise null; an \<^verbatim>\<open>id\<close> that is absent reads as undefined and so falls
  through to \<^verbatim>\<open>name\<close>. It returns null when the list is empty, when the status is not
  2xx, when the content type is not JSON, and when the request fails.
\<close>

theorem discoverModel_first_entry:
  "(truthy (token s) \<and> accepted r \<and> body_json r = Some data
      \<and> read_prop data ''models'' = JArr (first # rest) \<and> \<not> nullish first \<longrightarrow>
      fst (fetchFirstModel coerced s (Resolved r)) =
        (if truthy (read_prop first ''id'') then read_prop first ''id''
         else if truthy (read_prop first ''name'') then read_prop first ''name'' else JNull))
   \<and> (accepted r \<and> body_json r = Some data \<and> read_prop data ''models'' = JArr [] \<longrightarrow>
        fst (fetchFirstModel coerced s (Resolved r)) = JNull)
   \<and> (\<not> ok r \<or> \<not> accepted r \<longrightarrow> fst (fetchFirstModel coerced s (Resolved r)) = JNull)
   \<and> fst (fetchFirstModel coerced s Rejected) = JNull"
proof -
  have a: "truthy (token s) \<Longrightarrow> accepted r \<Longrightarrow> body_json r = Some data \<Longrightarrow>
      read_prop data ''models'' = JArr (first # rest) \<Longrightarrow> \<not> nullish first \<Longrightarrow>
      fst (fetchFirstModel coerced s (Resolved r)) =
        (if truthy (read_prop first ''id'') then read_prop first ''id''
         else if truthy (read_prop first ''name'') then read_prop first ''name'' else JNull)"
    by (simp add: fetchFirstModel_def first_model_entry)
  have b: "accepted r \<Longrightarrow> body_json r = Some data \<Longrightarrow> read_prop data ''models'' = JArr [] \<Longrightarrow>
        fst (fetchFirstModel coerced s (Resolved r)) = JNull"
    by (simp add: fetchFirstModel_def first_model_empty)
  have c: "\<not> accepted r \<Longrightarrow> fst (fetchFirstModel coerced s (Resolved r)) = JNull"
    by (simp add: fetchFirstModel_def)
  have c': "\<not> ok r \<Longrightarrow> \<not> accepted r"
    by (simp add: accepted_def)
  have d: "fst (fetchFirstModel coerced s Rejected) = JNull"
    by (simp add: fetchFirstModel_def)
  from a b c c' d show ?thesis by blast
qed

theorem discoverModel_first_entry_witness:
  "fst (fetchFirstModel (\<lambda>v. False) ((initial ([] :: chat_message list) Map.empty)\<lparr>token := JStr ''k''\<rparr>)
     (Resolved \<lparr>status = 200, content_type = Some ''application/json; charset=utf-8'',
        body_text = ''{\"models\":[{\"id\":\"gpt\",\"name\":\"GPT\"},{\"id\":\"b\"}]}'',
        body_json = Some (JObj [(''models'',
          JArr [JObj [(''id'', JStr ''gpt''), (''name'', JStr ''GPT'')], JObj [(''id'', JStr ''b'')]])])\<rparr>))
    = JStr ''gpt''
   \<and> fst (fetchFirstModel (\<lambda>v. False) ((initial ([] :: chat_message list) Map.empty)\<lparr>token := JStr ''k''\<rparr>)
     (Resolved \<lparr>status = 200, content_type = Some ''application/json'',
        body_text = ''{\"models\":[{\"name\":\"GPT\"}]}'',
        body_json = Some (JObj [(''models'', JArr [JObj [(''name'', JStr ''GPT'')]])])\<rparr>))
    = JStr ''GPT''
   \<and> fst (fetchFirstModel (\<lambda>v. False) ((initial ([] :: chat_message list) Map.empty)\<lparr>token := JStr ''k''\<rparr>)
     (Resolved \<lparr>status = 200, content_type = Some ''application/json'',
        body_text = ''{\"models\":[]}'',
        body_json = Some (JObj [(''models'', JArr [])])\<rparr>))
    = JNull
   \<and> fst (fetchFirstModel (\<lambda>v. False) ((initial ([] :: chat_message list) Map.empty)\<lparr>token := JStr ''k''\<rparr>)
     (Resolved \<lparr>status = 404, content_type = Some ''application/json'',
        body_text = ''{\"models\":[{\"id\":\"gpt\"}]}'',
        body_json = Some (JObj [(''models'', JArr [JObj [(''id'', JStr ''gpt'')]])])\<rparr>))
    = JNull"
  using discoverModel_first_entry
    [of "(initial ([] :: chat_message list) Map.empty)\<lparr>token := JStr ''k''\<rparr>"
        "\<lparr>status = 200, content_type = Some ''application/json; charset=utf-8'',
        body_text = ''{\"models\":[{\"id\":\"gpt\",\"name\":\"GPT\"},{\"id\":\"b\"}]}'',
        body_json = Some (JObj [(''models'',
          JArr [JObj [(''id'', JStr ''gpt''), (''name'', JStr ''GPT'')], JObj [(''id'', JStr ''b'')]])])\<rparr>"
        "JObj [(''models'',
          JArr [JObj [(''id'', JStr ''gpt''), (''name'', JStr ''GPT'')], JObj [(''id'', JStr ''b'')]])]"
        "JObj [(''id'', JStr ''gpt''), (''name'', JStr ''GPT'')]"
        "[JObj [(''id'', JStr ''b'')]]"
        "\<lambda>v. False"]
    discoverModel_first_entry
    [of "(initial ([] :: chat_message list) Map.empty)\<lparr>token := JStr ''k''\<rparr>"
        "\<lparr>status = 200, content_type = Some ''application/json'',
        body_text = ''{\"models\":[{\"name\":\"GPT\"}]}'',
        body_json = Some (JObj [(''models'', JArr [JObj [(''name'', JStr ''GPT'')]])])\<rparr>"
        "JObj [(''models'', JArr [JObj [(''name'', JStr ''GPT'')]])]"
        "JObj [(''name'', JStr ''GPT'')]"
        "[]"
        "\<lambda>v. False"]
    discoverModel_first_entry
    [of "(initial ([] :: chat_message list) Map.empty)\<lparr>token := JStr ''k''\<rparr>"
        "\<lparr>status = 200, content_type = Some ''application/json'',
        body_text = ''{\"models\":[]}'',
        body_json = Some (JObj [(''models'', JArr [])])\<rparr>"
        "JObj [(''models'', JArr [])]" JNull "[]"
        "\<lambda>v. False"]
    discoverModel_first_entry
    [of "(initial ([] :: chat_message list) Map.empty)\<lparr>token := JStr ''k''\<rparr>"
        "\<lparr>status = 404, content_type = Some ''application/json'',
        body_text = ''{\"models\":[{\"id\":\"gpt\"}]}'',
        body_json = Some (JObj [(''models'', JArr [JObj [(''id'', JStr ''gpt'')]])])\<rparr>"
        JNull JNull "[]" "\<lambda>v. False"]
  by (simp add: initial_def accepted_def ok_def prefix_def)

text \<open>
  C3, as stated, fails where \<^verbatim>\<open>id\<close> is present but falsy: with \<^verbatim>\<open>id\<close> the empty string
  and a \<^verbatim>\<open>name\<close>, both fields are present and the name is returned.
\<close>

theorem discoverModel_empty_id_counterexample:
  "fst (fetchFirstModel (\<lambda>v. False) ((initial ([] :: chat_message list) Map.empty)\<lparr>token := JStr ''k''\<rparr>)
     (Resolved \<lparr>status = 200, content_type = Some ''application/json'',
        body_text = ''{\"models\":[{\"id\":\"\",\"name\":\"GPT\"}]}'',
        body_json = Some (JObj [(''models'',
          JArr [JObj [(''id'', JStr ''''), (''name'', JStr ''GPT'')]])])\<rparr>))
    = JStr ''GPT''"
  by (simp add: initial_def accepted_def ok_def prefix_def fetchFirstModel_def first_model_def
      js_get_def nonempty_def js_or_def)

subsection \<open>Normalizing the reply to a message\<close>

lemma read_prop_not_nullish: "read_prop v k = JArr xs \<Longrightarrow> \<not> nullish v"
  by (cases v) auto

lemma nonempty_array: "nonempty coerced (JArr xs) = (xs \<noteq> [])"
  by (cases xs) (auto simp: nonempty_def)

lemma choice_reply_value:
  "\<not> nullish c \<Longrightarrow>
   choice_reply c =
     Inr (js_or (js_opt_get (read_prop c ''message'') ''content'')
            (js_or (js_opt_get (read_prop c ''delta'') ''content'') (JStr [])))"
  by (simp add: choice_reply_def js_get_def js_or_def)

lemma choice_reply_null: "nullish c \<Longrightarrow> choice_reply c = Inl TypeError"
  by (simp add: choice_reply_def js_get_def)

lemma normalize_choices:
  assumes "read_prop data ''choices'' = JArr (c # cs)" and "\<not> nullish c"
  shows "normalize coerced now data =
     Inr (Append
       (if truthy (js_or (js_opt_get (read_prop c ''message'') ''content'')
                    (js_or (js_opt_get (read_prop c ''delta'') ''content'') (JStr [])))
        then [\<lparr>m_id = JStr (decimal (now 0) @ ''-a''),
               m_text = js_or (js_opt_get (read_prop c ''message'') ''content'')
                          (js_or (js_opt_get (read_prop c ''delta'') ''content'') (JStr [])),
               m_role = JStr ''assistant''\<rparr>]
        else []))"
proof -
  from assms(1) have "\<not> nullish data" by (rule read_prop_not_nullish)
  with assms show ?thesis
    by (simp add: normalize_def js_get_def nonempty_array choice_reply_value)
qed





lemma normalize_null_choice:
  "read_prop data ''choices'' = JArr (c # cs) \<Longrightarrow> nullish c \<Longrightarrow>
   normalize coerced now data = Inl TypeError"
  by (frule read_prop_not_nullish)
     (simp add: normalize_def js_get_def nonempty_array choice_reply_null)





text \<open>
  C10, as amended. When \<^verbatim>\<open>sendMessage\<close> receives a response it takes as successful whose
  \<^verbatim>\<open>choices\<close> is a non-empty array, with a first entry that is not null and has neither
  a truthy \<^verbatim>\<open>message.content\<close> nor a truthy \<^verbatim>\<open>delta.content\<close>, the state is left as it
  is: no assistant message is appended and no error is set. After the synchronous part of
  the same call the conversation is the earlier one followed by the optimistic user
  message, and the error is what it was before the call.
\<close>

theorem empty_choice_is_silent:
  assumes "accepted r" and "body_json r = Some data"
    and "read_prop data ''choices'' = JArr (c # cs)" and "\<not> nullish c"
    and "\<not> truthy (js_opt_get (read_prop c ''message'') ''content'')"
    and "\<not> truthy (js_opt_get (read_prop c ''delta'') ''content'')"
  shows "sendMessage_resolve coerced now (Resolved r) s = s
    \<and> (sendMessage_begin t s0 = (s1, Some req) \<longrightarrow>
         messages (sendMessage_resolve coerced now (Resolved r) s1) =
           messages s0 @ [userMessage t (trim (currentMsg s0))]
         \<and> error (sendMessage_resolve coerced now (Resolved r) s1) = error s0)"
proof -
  have a: "sendMessage_resolve coerced now (Resolved r) u = u" for u
    using assms by (simp add: sendMessage_resolve_def normalize_choices js_or_def)
  have b: "sendMessage_begin t s0 = (s1, Some req) \<Longrightarrow>
      messages s1 = messages s0 @ [userMessage t (trim (currentMsg s0))] \<and> error s1 = error s0"
    by (auto simp: sendMessage_begin_def Let_def split: if_splits)
  from a b show ?thesis by simp
qed

theorem empty_choice_is_silent_witness:
  "fst (sendMessage_begin 3
      ((initial [] Map.empty)\<lparr>token := JStr ''k'', model := JStr ''m'', currentMsg := '' hi ''\<rparr>))
    = chat_state
   \<and> snd (sendMessage_begin 3
      ((initial [] Map.empty)\<lparr>token := JStr ''k'', model := JStr ''m'', currentMsg := '' hi ''\<rparr>))
    \<noteq> None
   \<and> sendMessage_resolve (\<lambda>v. False) (\<lambda>i. 7)
      (Resolved (json_response ''{\"choices\":[{}]}'' (JObj [(''choices'', JArr [JObj []])])))
      chat_state
    = chat_state
   \<and> messages chat_state = [userMessage 3 ''hi'']"
  using empty_choice_is_silent
    [of "json_response ''{\"choices\":[{}]}'' (JObj [(''choices'', JArr [JObj []])])"
        "JObj [(''choices'', JArr [JObj []])]" "JObj []" "[]" "\<lambda>v. False" "\<lambda>i. 7"
        chat_state 3
        "(initial [] Map.empty)\<lparr>token := JStr ''k'', model := JStr ''m'', currentMsg := '' hi ''\<rparr>"
        chat_state
        "the (snd (sendMessage_begin 3
           ((initial [] Map.empty)\<lparr>token := JStr ''k'', model := JStr ''m'',
              currentMsg := '' hi ''\<rparr>)))"]
  by (simp add: json_response_def chat_state_def initial_def accepted_def ok_def prefix_def
      js_opt_get_def sendMessage_begin_def trim_def is_space_def Let_def)

text \<open>
  C10, as stated, fails where the first entry of \<^verbatim>\<open>choices\<close> is null: it has neither
  content, but reading \<^verbatim>\<open>message\<close> from it throws, and the \<^verbatim>\<open>catch\<close> block sets the error
  \<^verbatim>\<open>Network error\<close>.
\<close>

theorem null_choice_counterexample:
  "sendMessage_resolve (\<lambda>v. False) (\<lambda>i. 7)
      (Resolved (json_response ''{\"choices\":[null]}'' (JObj [(''choices'', JArr [JNull])])))
      chat_state
    = chat_state\<lparr>console := [LogError TypeError], error := Some ''Network error''\<rparr>"
  by (simp add: json_response_def chat_state_def initial_def accepted_def ok_def prefix_def
      sendMessage_resolve_def normalize_def js_get_def nonempty_def choice_reply_def)

subsection \<open>Sending a message\<close>

lemma trim_empty_iff: "trim t = [] \<longleftrightarrow> (\<forall>c\<in>set t. is_space c)"
proof
  assume "trim t = []"
  then have "\<forall>c\<in>set (dropWhile is_space t). is_space c"
    by (simp add: trim_def dropWhile_eq_Nil_conv)
  then have "dropWhile is_space t = []"
    using hd_dropWhile [of is_space t] hd_in_set [of "dropWhile is_space t"] by blast
  then show "\<forall>c\<in>set t. is_space c"
    by (simp add: dropWhile_eq_Nil_conv)
next
  assume "\<forall>c\<in>set t. is_space c"
  then show "trim t = []" by (auto simp: trim_def dest: set_dropWhileD)
qed

text \<open>
  C5. When the text typed consists only of white space (or is empty), \<^verbatim>\<open>sendMessage\<close>
  returns before it changes any state and before it calls \<^verbatim>\<open>fetch\<close>, in all three
  variants: the state, and with it the conversation, is what it was, no message is
  created and no request is issued. The guard is exact in the model-discovery variant:
  with a token, a model and a text that is not only white space, a request is issued and
  the user message is appended.
\<close>

theorem whitespace_send_is_noop:
  "((\<forall>c\<in>set (currentMsg s). is_space c) \<longrightarrow> sendMessage_begin now s = (s, None))
   \<and> ((\<forall>c\<in>set (currentMsg h). is_space c) \<longrightarrow>
        sendMessage2_begin now h = (h, None) \<and> sendMessage3_begin now h = (h, None))
   \<and> (truthy (token s) \<and> truthy (model s) \<and> \<not> (\<forall>c\<in>set (currentMsg s). is_space c) \<longrightarrow>
        snd (sendMessage_begin now s) \<noteq> None
        \<and> messages (fst (sendMessage_begin now s)) =
            messages s @ [userMessage now (trim (currentMsg s))])"
  by (simp add: sendMessage_begin_def sendMessage2_begin_def sendMessage3_begin_def
      trim_empty_iff [symmetric] Let_def)

theorem whitespace_send_is_noop_witness:
  "sendMessage_begin 3 ((initial [userMessage 1 ''a''] Map.empty)
      \<lparr>token := JStr ''k'', model := JStr ''m'', currentMsg := [CHR '' '', CHR 0x09, CHR 0x0A]\<rparr>)
    = ((initial [userMessage 1 ''a''] Map.empty)
      \<lparr>token := JStr ''k'', model := JStr ''m'', currentMsg := [CHR '' '', CHR 0x09, CHR 0x0A]\<rparr>, None)
   \<and> sendMessage3_begin 3 ((initial (JArr []) Map.empty)\<lparr>token := JStr ''k'', currentMsg := []\<rparr>)
    = ((initial (JArr []) Map.empty)\<lparr>token := JStr ''k'', currentMsg := []\<rparr>, None)
   \<and> messages (fst (sendMessage_begin 3 ((initial [userMessage 1 ''a''] Map.empty)
      \<lparr>token := JStr ''k'', model := JStr ''m'', currentMsg := '' b ''\<rparr>)))
    = [userMessage 1 ''a'', userMessage 3 ''b'']"
  using whitespace_send_is_noop
    [of "(initial [userMessage 1 ''a''] Map.empty)
      \<lparr>token := JStr ''k'', model := JStr ''m'', currentMsg := [CHR '' '', CHR 0x09, CHR 0x0A]\<rparr>"
      3 "(initial (JArr []) Map.empty)\<lparr>token := JStr ''k'', currentMsg := []\<rparr>"]
    whitespace_send_is_noop
    [of "(initial [userMessage 1 ''a''] Map.empty)
      \<lparr>token := JStr ''k'', model := JStr ''m'', currentMsg := '' b ''\<rparr>"
      3 "(initial (JArr []) Map.empty)\<lparr>token := JStr ''k'', currentMsg := []\<rparr>"]
  by (simp add: initial_def is_space_def trim_def)

text \<open>
  C7. When the request of \<^verbatim>\<open>sendMessage\<close> fails in the network, or its response has a
  status outside 2xx or a content type that is not JSON, the error is set (to
  \<^verbatim>\<open>Network error\<close>, or to \<^verbatim>\<open>Unexpected response:\<close> with the body text), and the
  conversation is the one before the call followed by the optimistic user message:
  nothing is rolled back, and the continuation changes no message of whatever
  conversation it finds.
\<close>

theorem failed_send_keeps_optimistic_message:
  assumes "sendMessage_begin t s0 = (s1, Some req)"
    and "outcome = Rejected \<or> (\<exists>r. outcome = Resolved r \<and> \<not> accepted r)"
  shows "error (sendMessage_resolve coerced now outcome s1) =
           Some (case outcome of Rejected \<Rightarrow> ''Network error''
                 | Resolved r \<Rightarrow> ''Unexpected response: '' @ body_text r)
    \<and> messages (sendMessage_resolve coerced now outcome s1) =
        messages s0 @ [userMessage t (trim (currentMsg s0))]
    \<and> (\<forall>u. messages (sendMessage_resolve coerced now outcome u) = messages u)"
proof -
  from assms(1) have "messages s1 = messages s0 @ [userMessage t (trim (currentMsg s0))]"
    by (auto simp: sendMessage_begin_def Let_def split: if_splits)
  with assms(2) show ?thesis
    by (auto simp: sendMessage_resolve_def)
qed

theorem failed_send_keeps_optimistic_message_witness:
  "fst (sendMessage_begin 3 ((initial [userMessage 1 ''a''] Map.empty)
      \<lparr>token := JStr ''k'', model := JStr ''m'', currentMsg := '' b ''\<rparr>))
     = (initial [userMessage 1 ''a'', userMessage 3 ''b''] Map.empty)
         \<lparr>token := JStr ''k'', model := JStr ''m''\<rparr>
   \<and> snd (sendMessage_begin 3 ((initial [userMessage 1 ''a''] Map.empty)
      \<lparr>token := JStr ''k'', model := JStr ''m'', currentMsg := '' b ''\<rparr>)) \<noteq> None
   \<and> sendMessage_resolve (\<lambda>v. False) (\<lambda>i. 7)
        (Resolved \<lparr>status = 502, content_type = Some ''text/html'', body_text = ''Bad Gateway'',
           body_json = None\<rparr>)
        ((initial [userMessage 1 ''a'', userMessage 3 ''b''] Map.empty)
           \<lparr>token := JStr ''k'', model := JStr ''m''\<rparr>)
     = (initial [userMessage 1 ''a'', userMessage 3 ''b''] Map.empty)
         \<lparr>token := JStr ''k'', model := JStr ''m'',
          error := Some ''Unexpected response: Bad Gateway'',
          console := [Warn ''Bad Gateway'']\<rparr>
   \<and> error (sendMessage_resolve (\<lambda>v. False) (\<lambda>i. 7) Rejected
        ((initial [userMessage 1 ''a'', userMessage 3 ''b''] Map.empty)
           \<lparr>token := JStr ''k'', model := JStr ''m''\<rparr>))
     = Some ''Network error''"
  using failed_send_keeps_optimistic_message
    [of 3 "(initial [userMessage 1 ''a''] Map.empty)
      \<lparr>token := JStr ''k'', model := JStr ''m'', currentMsg := '' b ''\<rparr>"
      "(initial [userMessage 1 ''a'', userMessage 3 ''b''] Map.empty)
         \<lparr>token := JStr ''k'', model := JStr ''m''\<rparr>"
      "the (snd (sendMessage_begin 3 ((initial [userMessage 1 ''a''] Map.empty)
      \<lparr>token := JStr ''k'', model := JStr ''m'', currentMsg := '' b ''\<rparr>)))"
      "Resolved \<lparr>status = 502, content_type = Some ''text/html'', body_text = ''Bad Gateway'',
           body_json = None\<rparr>"
      "\<lambda>v. False" "\<lambda>i. 7"]
    failed_send_keeps_optimistic_message
    [of 3 "(initial [userMessage 1 ''a''] Map.empty)
      \<lparr>token := JStr ''k'', model := JStr ''m'', currentMsg := '' b ''\<rparr>"
      "(initial [userMessage 1 ''a'', userMessage 3 ''b''] Map.empty)
         \<lparr>token := JStr ''k'', model := JStr ''m''\<rparr>"
      "the (snd (sendMessage_begin 3 ((initial [userMessage 1 ''a''] Map.empty)
      \<lparr>token := JStr ''k'', model := JStr ''m'', currentMsg := '' b ''\<rparr>)))"
      "Rejected"
      "\<lambda>v. False" "\<lambda>i. 7"]
  by (simp add: initial_def accepted_def ok_def sendMessage_begin_def trim_def is_space_def
      Let_def sendMessage_resolve_def)

subsection \<open>Saving and loading the credentials\<close>

lemma connect_valid:
  assumes "trim (serverUrl s) \<noteq> []" and "trim (apiKey s) \<noteq> []"
  shows "connect s =
    s\<lparr>error := None,
      localStorage := (localStorage s)(''serverUrl'' \<mapsto> trim (serverUrl s),
                                      ''apiKey'' \<mapsto> trim (apiKey s)),
      token := JStr (trim (apiKey s))\<rparr>"
  using assms by (simp add: connect_def Let_def)

lemma mount_after_save:
  assumes "u \<noteq> []" and "k \<noteq> []"
  shows "mount (initial e (store(''serverUrl'' \<mapsto> u, ''apiKey'' \<mapsto> k))) =
    (initial e (store(''serverUrl'' \<mapsto> u, ''apiKey'' \<mapsto> k)))
      \<lparr>serverUrl := u, apiKey := k, token := JStr k\<rparr>"
  using assms by (simp add: mount_def getItem_or_empty_def initial_def Let_def)

text \<open>
  C4, as amended. When the server URL and the API key typed are both non-empty after
  trimming, \<^verbatim>\<open>connect\<close> stores exactly the two trimmed values under the keys
  \<^verbatim>\<open>serverUrl\<close> and \<^verbatim>\<open>apiKey\<close> and leaves every other entry of the storage as it was; the
  mount effect of a component started on that storage reads back exactly the stored pair
  (and takes the key as its token). When either is empty after trimming, \<^verbatim>\<open>connect\<close> only
  sets the validation error: nothing is stored and no token is set.
\<close>

theorem connect_round_trip:
  "(trim (serverUrl s) \<noteq> [] \<and> trim (apiKey s) \<noteq> [] \<longrightarrow>
      localStorage (connect s) =
        (localStorage s)(''serverUrl'' \<mapsto> trim (serverUrl s), ''apiKey'' \<mapsto> trim (apiKey s))
      \<and> error (connect s) = None
      \<and> token (connect s) = JStr (trim (apiKey s))
      \<and> serverUrl (mount (initial e (localStorage (connect s)))) = trim (serverUrl s)
      \<and> apiKey (mount (initial e (localStorage (connect s)))) = trim (apiKey s)
      \<and> token (mount (initial e (localStorage (connect s)))) = JStr (trim (apiKey s)))
   \<and> (trim (serverUrl s) = [] \<or> trim (apiKey s) = [] \<longrightarrow>
        connect s = s\<lparr>error := Some ''Server URL and API key required''\<rparr>)"
proof -
  have a: "trim (serverUrl s) = [] \<or> trim (apiKey s) = [] \<Longrightarrow>
      connect s = s\<lparr>error := Some ''Server URL and API key required''\<rparr>"
    by (auto simp: connect_def Let_def)
  have b: "trim (serverUrl s) \<noteq> [] \<Longrightarrow> trim (apiKey s) \<noteq> [] \<Longrightarrow>
      localStorage (connect s) =
        (localStorage s)(''serverUrl'' \<mapsto> trim (serverUrl s), ''apiKey'' \<mapsto> trim (apiKey s))
      \<and> error (connect s) = None \<and> token (connect s) = JStr (trim (apiKey s))"
    by (simp add: connect_valid)
  have c: "trim (serverUrl s) \<noteq> [] \<Longrightarrow> trim (apiKey s) \<noteq> [] \<Longrightarrow>
      mount (initial e (localStorage (connect s))) =
        (initial e (localStorage (connect s)))
          \<lparr>serverUrl := trim (serverUrl s), apiKey := trim (apiKey s),
           token := JStr (trim (apiKey s))\<rparr>"
    by (simp add: connect_valid mount_after_save)
  from a b c show ?thesis by simp
qed

theorem connect_round_trip_witness:
  "localStorage (connect ((initial (JArr []) Map.empty)\<lparr>serverUrl := ''http://h'', apiKey := ''key''\<rparr>))
     = [''serverUrl'' \<mapsto> ''http://h'', ''apiKey'' \<mapsto> ''key'']
   \<and> mount (initial (JArr [])
        (localStorage (connect ((initial (JArr []) Map.empty)\<lparr>serverUrl := ''http://h'', apiKey := ''key''\<rparr>))))
     = (initial (JArr []) [''serverUrl'' \<mapsto> ''http://h'', ''apiKey'' \<mapsto> ''key''])
         \<lparr>serverUrl := ''http://h'', apiKey := ''key'', token := JStr ''key''\<rparr>
   \<and> connect ((initial (JArr []) Map.empty)\<lparr>serverUrl := ''http://h'', apiKey := ''  ''\<rparr>)
     = (initial (JArr []) Map.empty)
         \<lparr>serverUrl := ''http://h'', apiKey := ''  '',
          error := Some ''Server URL and API key required''\<rparr>"
  using connect_round_trip
    [of "(initial (JArr []) Map.empty)\<lparr>serverUrl := ''http://h'', apiKey := ''key''\<rparr>" "JArr []"]
    connect_round_trip
    [of "(initial (JArr []) Map.empty)\<lparr>serverUrl := ''http://h'', apiKey := ''  ''\<rparr>" "JArr []"]
  by (simp add: initial_def trim_def is_space_def mount_def getItem_or_empty_def connect_def
      Let_def)

text \<open>
  C4, as stated, fails for values with white space around them: what is stored is the
  trimmed value, not the value typed.
\<close>

theorem connect_trims_counterexample:
  "serverUrl ((initial (JArr []) Map.empty)\<lparr>serverUrl := '' http://h'', apiKey := ''key ''\<rparr>)
     = '' http://h''
   \<and> localStorage (connect ((initial (JArr []) Map.empty)
        \<lparr>serverUrl := '' http://h'', apiKey := ''key ''\<rparr>)) ''serverUrl'' = Some ''http://h''
   \<and> localStorage (connect ((initial (JArr []) Map.empty)
        \<lparr>serverUrl := '' http://h'', apiKey := ''key ''\<rparr>)) ''apiKey'' = Some ''key''"
  by (simp add: initial_def connect_def trim_def is_space_def Let_def)

subsection \<open>Fetching the history\<close>

lemma fetchHistory2_ok:
  "truthy (token s0) \<Longrightarrow> accepted r \<Longrightarrow> body_json r = Some data \<Longrightarrow> \<not> nullish data \<Longrightarrow>
   fetchHistory2_resolve s0 (Resolved r) s =
     s\<lparr>messages := js_or (read_prop data ''messages'') (JArr [])\<rparr>"
  by (simp add: fetchHistory2_resolve_def js_get_def)

lemma fetchHistory3_ok:
  "truthy (token s0) \<Longrightarrow> ok r \<Longrightarrow> body_json r = Some data \<Longrightarrow> \<not> nullish data \<Longrightarrow>
   fetchHistory3_resolve s0 (Resolved r) s =
     s\<lparr>messages := js_or (read_prop data ''messages'') (JArr [])\<rparr>"
  by (simp add: fetchHistory3_resolve_def js_get_def)

text \<open>
  C9. In both history variants, with a token: a response taken as successful whose body
  has a \<^verbatim>\<open>messages\<close> array sets the conversation to that array as it is; one whose body
  has no \<^verbatim>\<open>messages\<close> field sets it to the empty array; a status outside 2xx sets the
  error \<^verbatim>\<open>Failed to fetch chat history\<close> and a body that cannot be parsed (or is null)
  the error \<^verbatim>\<open>Network error\<close>, the conversation staying as it was, so that a failure is
  told apart from an empty history. The API-key variant takes a response as successful as
  in C1, the login variant on its status alone. The witness evaluates the response
  \<^verbatim>\<open>{messages: [{id: "1", role: "user", text: "hi"}]}\<close>.
\<close>

theorem fetchHistory_result:
  assumes "truthy (token s0)"
  shows
  "(accepted r \<and> body_json r = Some data \<and> read_prop data ''messages'' = JArr msgs \<longrightarrow>
      fetchHistory2_resolve s0 (Resolved r) s = s\<lparr>messages := JArr msgs\<rparr>)
   \<and> (accepted r \<and> body_json r = Some data \<and> \<not> nullish data
        \<and> read_prop data ''messages'' = JUndefined \<longrightarrow>
      fetchHistory2_resolve s0 (Resolved r) s = s\<lparr>messages := JArr []\<rparr>)
   \<and> (\<not> ok r \<longrightarrow>
      fetchHistory2_resolve s0 (Resolved r) s =
        s\<lparr>console := console s @ [Warn (body_text r)],
          error := Some ''Failed to fetch chat history''\<rparr>)
   \<and> (accepted r \<and> (body_json r = None \<or> body_json r = Some JNull) \<longrightarrow>
      error (fetchHistory2_resolve s0 (Resolved r) s) = Some ''Network error''
      \<and> messages (fetchHistory2_resolve s0 (Resolved r) s) = messages s)
   \<and> (ok r \<and> body_json r = Some data \<and> read_prop data ''messages'' = JArr msgs \<longrightarrow>
      fetchHistory3_resolve s0 (Resolved r) s = s\<lparr>messages := JArr msgs\<rparr>)
   \<and> (ok r \<and> body_json r = Some data \<and> \<not> nullish data
        \<and> read_prop data ''messages'' = JUndefined \<longrightarrow>
      fetchHistory3_resolve s0 (Resolved r) s = s\<lparr>messages := JArr []\<rparr>)
   \<and> (\<not> ok r \<longrightarrow>
      fetchHistory3_resolve s0 (Resolved r) s = s\<lparr>error := Some ''Failed to fetch chat history''\<rparr>)
   \<and> (ok r \<and> (body_json r = None \<or> body_json r = Some JNull) \<longrightarrow>
      error (fetchHistory3_resolve s0 (Resolved r) s) = Some ''Network error''
      \<and> messages (fetchHistory3_resolve s0 (Resolved r) s) = messages s)"
proof -
  have a2: "accepted r \<Longrightarrow> body_json r = Some data \<Longrightarrow> read_prop data ''messages'' = JArr msgs \<Longrightarrow>
      fetchHistory2_resolve s0 (Resolved r) s = s\<lparr>messages := JArr msgs\<rparr>"
    using assms by (frule_tac read_prop_not_nullish) (simp add: fetchHistory2_ok js_or_def)
  have b2: "accepted r \<Longrightarrow> body_json r = Some data \<Longrightarrow> \<not> nullish data \<Longrightarrow>
      read_prop data ''messages'' = JUndefined \<Longrightarrow>
      fetchHistory2_resolve s0 (Resolved r) s = s\<lparr>messages := JArr []\<rparr>"
    using assms by (simp add: fetchHistory2_ok js_or_def)
  have c2: "\<not> ok r \<Longrightarrow> fetchHistory2_resolve s0 (Resolved r) s =
        s\<lparr>console := console s @ [Warn (body_text r)],
          error := Some ''Failed to fetch chat history''\<rparr>"
    using assms by (simp add: fetchHistory2_resolve_def accepted_def)
  have d2: "accepted r \<Longrightarrow> body_json r = None \<or> body_json r = Some JNull \<Longrightarrow>
      error (fetchHistory2_resolve s0 (Resolved r) s) = Some ''Network error''
      \<and> messages (fetchHistory2_resolve s0 (Resolved r) s) = messages s"
    using assms by (auto simp: fetchHistory2_resolve_def js_get_def)
  have a3: "ok r \<Longrightarrow> body_json r = Some data \<Longrightarrow> read_prop data ''messages'' = JArr msgs \<Longrightarrow>
      fetchHistory3_resolve s0 (Resolved r) s = s\<lparr>messages := JArr msgs\<rparr>"
    using assms by (frule_tac read_prop_not_nullish) (simp add: fetchHistory3_ok js_or_def)
  have b3: "ok r \<Longrightarrow> body_json r = Some data \<Longrightarrow> \<not> nullish data \<Longrightarrow>
      read_prop data ''messages'' = JUndefined \<Longrightarrow>
      fetchHistory3_resolve s0 (Resolved r) s = s\<lparr>messages := JArr []\<rparr>"
    using assms by (simp add: fetchHistory3_ok js_or_def)
  have c3: "\<not> ok r \<Longrightarrow> fetchHistory3_resolve s0 (Resolved r) s =
        s\<lparr>error := Some ''Failed to fetch chat history''\<rparr>"
    using assms by (simp add: fetchHistory3_resolve_def)
  have d3: "ok r \<Longrightarrow> body_json r = None \<or> body_json r = Some JNull \<Longrightarrow>
      error (fetchHistory3_resolve s0 (Resolved r) s) = Some ''Network error''
      \<and> messages (fetchHistory3_resolve s0 (Resolved r) s) = messages s"
    using assms by (auto simp: fetchHistory3_resolve_def js_get_def)
  from a2 b2 c2 d2 a3 b3 c3 d3 show ?thesis by blast
qed


theorem fetchHistory_result_witness:
  "fetchHistory2_resolve history_state
      (Resolved (json_response ''{\"messages\":[{\"id\":\"1\",\"role\":\"user\",\"text\":\"hi\"}]}''
         (JObj [(''messages'',
            JArr [JObj [(''id'', JStr ''1''), (''role'', JStr ''user''), (''text'', JStr ''hi'')]])])))
      history_state
    = history_state\<lparr>messages :=
        JArr [JObj [(''id'', JStr ''1''), (''role'', JStr ''user''), (''text'', JStr ''hi'')]]\<rparr>
   \<and> fetchHistory3_resolve history_state
      (Resolved (json_response ''{\"messages\":[{\"id\":\"1\",\"role\":\"user\",\"text\":\"hi\"}]}''
         (JObj [(''messages'',
            JArr [JObj [(''id'', JStr ''1''), (''role'', JStr ''user''), (''text'', JStr ''hi'')]])])))
      history_state
    = history_state\<lparr>messages :=
        JArr [JObj [(''id'', JStr ''1''), (''role'', JStr ''user''), (''text'', JStr ''hi'')]]\<rparr>
   \<and> fetchHistory2_resolve history_state (Resolved (json_response ''{}'' (JObj [])))
      (history_state\<lparr>messages := JArr [JNum 1]\<rparr>)
    = history_state
   \<and> fetchHistory2_resolve history_state
      (Resolved \<lparr>status = 500, content_type = Some ''text/plain'', body_text = ''oops'',
         body_json = None\<rparr>)
      history_state
    = history_state\<lparr>console := [Warn ''oops''], error := Some ''Failed to fetch chat history''\<rparr>
   \<and> fetchHistory3_resolve history_state
      (Resolved \<lparr>status = 500, content_type = Some ''text/plain'', body_text = ''oops'',
         body_json = None\<rparr>)
      history_state
    = history_state\<lparr>error := Some ''Failed to fetch chat history''\<rparr>
   \<and> error (fetchHistory2_resolve history_state
      (Resolved \<lparr>status = 200, content_type = Some ''application/json'',
         body_text = ''{\"messages\":'', body_json = None\<rparr>)
      history_state)
    = Some ''Network error''"
  using
    fetchHistory_result
      [of history_state
        "json_response ''{\"messages\":[{\"id\":\"1\",\"role\":\"user\",\"text\":\"hi\"}]}''
           (JObj [(''messages'',
              JArr [JObj [(''id'', JStr ''1''), (''role'', JStr ''user''), (''text'', JStr ''hi'')]])])"
        "JObj [(''messages'',
              JArr [JObj [(''id'', JStr ''1''), (''role'', JStr ''user''), (''text'', JStr ''hi'')]])]"
        "[JObj [(''id'', JStr ''1''), (''role'', JStr ''user''), (''text'', JStr ''hi'')]]"
        history_state]
    fetchHistory_result
      [of history_state "json_response ''{}'' (JObj [])" "JObj []" "[]"
        "history_state\<lparr>messages := JArr [JNum 1]\<rparr>"]
    fetchHistory_result
      [of history_state
        "\<lparr>status = 500, content_type = Some ''text/plain'', body_text = ''oops'',
           body_json = None\<rparr>"
        JNull "[]" history_state]
    fetchHistory_result
      [of history_state
        "\<lparr>status = 200, content_type = Some ''application/json'',
           body_text = ''{\"messages\":'', body_json = None\<rparr>"
        JNull "[]" history_state]
  by (simp add: json_response_def history_state_def initial_def accepted_def ok_def prefix_def)

subsection \<open>Changing the credential\<close>

lemma history_fetch_failure_keeps:
  "outcome = Rejected \<or> (\<exists>r. outcome = Resolved r \<and> \<not> accepted r) \<Longrightarrow>
   messages (fetchHistory2_resolve h0 outcome h) = messages h"
  by (auto simp: fetchHistory2_resolve_def)

lemma history_fetch3_failure_keeps:
  "outcome = Rejected \<or> (\<exists>r. outcome = Resolved r \<and> \<not> ok r) \<Longrightarrow>
   messages (fetchHistory3_resolve h0 outcome h) = messages h"
  by (auto simp: fetchHistory3_resolve_def)

lemma login3_resolve_keeps: "messages (login3_resolve outcome h) = messages h"
  by (simp add: login3_resolve_def split: fetch_outcome.split option.split sum.split)

text \<open>
  C6, as amended. In the model-discovery variant the effect on token and server URL,
  which runs whenever one of the two has changed, empties the conversation (and the
  error) as soon as it runs with a token, before it awaits anything, and its continuation
  leaves the conversation alone: nothing of the earlier conversation is kept. The two
  history variants do not clear the conversation when the credential changes: neither
  \<^verbatim>\<open>connect\<close> nor the continuation of \<^verbatim>\<open>login\<close> touches it, and the history fetch that
  follows replaces it by what the server sent when it succeeds (whatever it held before,
  so nothing is merged) and leaves it as it was when the request fails or the status is
  not 2xx.
\<close>

theorem credential_change_and_conversation:
  "(truthy (token s) \<longrightarrow>
      messages (setup_begin s) = []
      \<and> error (setup_begin s) = None
      \<and> (\<forall>coerced outcome t. messages (setup_resolve coerced s outcome t) = messages t))
   \<and> messages (connect h) = messages h
   \<and> messages (login3_resolve outcome h) = messages h
   \<and> (truthy (token h0) \<and> accepted r \<and> body_json r = Some data \<and> \<not> nullish data \<longrightarrow>
        messages (fetchHistory2_resolve h0 (Resolved r) h) =
          js_or (read_prop data ''messages'') (JArr []))
   \<and> (truthy (token h0) \<and> ok r \<and> body_json r = Some data \<and> \<not> nullish data \<longrightarrow>
        messages (fetchHistory3_resolve h0 (Resolved r) h) =
          js_or (read_prop data ''messages'') (JArr []))
   \<and> (failed = Rejected \<or> (\<exists>r. failed = Resolved r \<and> \<not> ok r) \<longrightarrow>
        messages (fetchHistory2_resolve h0 failed h) = messages h
        \<and> messages (fetchHistory3_resolve h0 failed h) = messages h)"
proof -
  have v1: "truthy (token s) \<Longrightarrow> messages (setup_begin s) = [] \<and> error (setup_begin s) = None"
    by (simp add: setup_begin_def)
  have v1': "messages (setup_resolve coerced s outcome t) = messages t" for coerced outcome t
    by (simp add: setup_resolve_def Let_def split: prod.split)
  have c: "messages (connect h) = messages h"
    by (simp add: connect_def Let_def)
  have ok2: "truthy (token h0) \<Longrightarrow> accepted r \<Longrightarrow> body_json r = Some data \<Longrightarrow> \<not> nullish data \<Longrightarrow>
      messages (fetchHistory2_resolve h0 (Resolved r) h) =
        js_or (read_prop data ''messages'') (JArr [])"
    by (simp add: fetchHistory2_ok)
  have ok3: "truthy (token h0) \<Longrightarrow> ok r \<Longrightarrow> body_json r = Some data \<Longrightarrow> \<not> nullish data \<Longrightarrow>
      messages (fetchHistory3_resolve h0 (Resolved r) h) =
        js_or (read_prop data ''messages'') (JArr [])"
    by (simp add: fetchHistory3_ok)
  have f2: "failed = Rejected \<or> (\<exists>r. failed = Resolved r \<and> \<not> ok r) \<Longrightarrow>
      messages (fetchHistory2_resolve h0 failed h) = messages h"
    by (rule history_fetch_failure_keeps) (auto simp: accepted_def)
  have f3: "failed = Rejected \<or> (\<exists>r. failed = Resolved r \<and> \<not> ok r) \<Longrightarrow>
      messages (fetchHistory3_resolve h0 failed h) = messages h"
    by (rule history_fetch3_failure_keeps)
  from v1 v1' c login3_resolve_keeps [of outcome h] ok2 ok3 f2 f3 show ?thesis by blast
qed

theorem credential_change_and_conversation_witness:
  "messages (setup_begin (chat_state\<lparr>serverUrl := ''http://other''\<rparr>)) = []
   \<and> messages chat_state = [userMessage 3 ''hi'']
   \<and> messages (fetchHistory2_resolve history_state
        (Resolved (json_response ''{\"messages\":[]}'' (JObj [(''messages'', JArr [])])))
        (history_state\<lparr>messages := JArr [JNum 1]\<rparr>)) = JArr []
   \<and> messages (fetchHistory3_resolve history_state
        (Resolved \<lparr>status = 500, content_type = Some ''text/plain'', body_text = ''oops'',
           body_json = None\<rparr>)
        (history_state\<lparr>messages := JArr [JNum 1]\<rparr>)) = JArr [JNum 1]"
  using credential_change_and_conversation
    [of "chat_state\<lparr>serverUrl := ''http://other''\<rparr>"
        "history_state\<lparr>messages := JArr [JNum 1]\<rparr>" Rejected history_state
        "json_response ''{\"messages\":[]}'' (JObj [(''messages'', JArr [])])"
        "JObj [(''messages'', JArr [])]"
        "Resolved \<lparr>status = 500, content_type = Some ''text/plain'', body_text = ''oops'',
           body_json = None\<rparr>"]
  by (simp add: chat_state_def history_state_def json_response_def initial_def accepted_def
      ok_def prefix_def js_or_def)

text \<open>
  C6, as stated, fails in the login variant. The login button is pressed twice before
  the first response arrives. The first response sets the token and the chat is shown;
  the user sends \<^verbatim>\<open>hi\<close>; the second response then sets another token, so the credential
  changes while the conversation holds a message, and nothing clears it. The history
  fetch for the new token answers with status 500, and the earlier conversation stays.
\<close>

theorem second_login_keeps_conversation_counterexample:
  "login3_resolve (Resolved (json_response ''{\"token\":\"t1\"}'' (JObj [(''token'', JStr ''t1'')])))
      ((initial (JArr []) Map.empty)\<lparr>serverUrl := ''http://h''\<rparr>)
    = (initial (JArr []) Map.empty)\<lparr>serverUrl := ''http://h'', token := JStr ''t1''\<rparr>
   \<and> fst (sendMessage3_begin 3
        ((initial (JArr []) Map.empty)
           \<lparr>serverUrl := ''http://h'', token := JStr ''t1'', currentMsg := ''hi''\<rparr>))
    = (initial (JArr [msg_obj (userMessage 3 ''hi'')]) Map.empty)
        \<lparr>serverUrl := ''http://h'', token := JStr ''t1''\<rparr>
   \<and> login3_resolve (Resolved (json_response ''{\"token\":\"t2\"}'' (JObj [(''token'', JStr ''t2'')])))
      ((initial (JArr [msg_obj (userMessage 3 ''hi'')]) Map.empty)
         \<lparr>serverUrl := ''http://h'', token := JStr ''t1''\<rparr>)
    = (initial (JArr [msg_obj (userMessage 3 ''hi'')]) Map.empty)
        \<lparr>serverUrl := ''http://h'', token := JStr ''t2''\<rparr>
   \<and> fetchHistory3_resolve
      ((initial (JArr [msg_obj (userMessage 3 ''hi'')]) Map.empty)
         \<lparr>serverUrl := ''http://h'', token := JStr ''t2''\<rparr>)
      (Resolved \<lparr>status = 500, content_type = Some ''text/plain'', body_text = ''oops'',
         body_json = None\<rparr>)
      ((initial (JArr [msg_obj (userMessage 3 ''hi'')]) Map.empty)
         \<lparr>serverUrl := ''http://h'', token := JStr ''t2''\<rparr>)
    = (initial (JArr [msg_obj (userMessage 3 ''hi'')]) Map.empty)
        \<lparr>serverUrl := ''http://h'', token := JStr ''t2'',
         error := Some ''Failed to fetch chat history''\<rparr>"
  by (simp add: json_response_def initial_def login3_resolve_def ok_def js_get_def
      sendMessage3_begin_def trim_def is_space_def Let_def push_def fetchHistory3_resolve_def)

end
